theory Spec2Isabelle
  imports Main "HOL-Library.Word"
begin

unbundle bit_operations_syntax

section \<open>The Assimp export binding\<close>

text \<open>
  The repository holds one class, \<open>AssimpExportWrapper\<close>, in two variants: the one of
  \<^verbatim>\<open>src/assimp_export.cpp\<close>, which writes diagnostic lines to the standard output
  when its \<open>enable_logging\<close> member is set, and an earlier one without that member.
  Both own an \<open>Assimp::Importer\<close> and an \<open>Assimp::Exporter\<close> and forward to them.
  The library itself is not part of the repository: it appears here as a parameter, a
  record of the constants and member functions the class uses, over the state of the
  two handles.
\<close>

subsection \<open>Library data the class reads\<close>

text \<open>
  Of \<open>aiScene\<close> the class reads \<open>mFlags\<close>, \<open>mRootNode\<close> (a pointer: \<open>None\<close> is the
  null pointer, \<open>Some a\<close> a node at address \<open>a\<close>) and three \<open>unsigned int\<close> counters;
  of \<open>aiExportFormatDesc\<close> it reads \<open>id\<close> and \<open>description\<close>.
\<close>

record aiScene =
  mFlags :: "32 word"
  mRootNode :: "nat option"
  mNumMeshes :: "32 word"
  mNumMaterials :: "32 word"
  mNumTextures :: "32 word"

record aiExportFormatDesc =
  id_desc :: string
  description :: string

text \<open>The files the library reads and writes: a path has a content or does not exist.\<close>

type_synonym filesystem = "string \<Rightarrow> string option"

subsection \<open>The library interface\<close>

text \<open>
  \<open>'i\<close> is the state of an \<open>Assimp::Importer\<close>, \<open>'e\<close> that of an \<open>Assimp::Exporter\<close>.
  \<open>ReadFile\<close> returns the scene pointer (\<open>None\<close> when null) and the importer's new
  state; \<open>Export\<close> returns the \<open>aiReturn\<close> code, the exporter's new state and the
  files after the call. The three query functions are \<open>const\<close> members. The
  post-processing bits, the scene flag and \<open>AI_SUCCESS\<close> come from the library's
  headers.
\<close>

record ('i, 'e) assimp =
  aiProcess_Triangulate :: "32 word"
  aiProcess_FlipUVs :: "32 word"
  aiProcess_GenSmoothNormals :: "32 word"
  aiProcess_JoinIdenticalVertices :: "32 word"
  AI_SCENE_FLAGS_INCOMPLETE :: "32 word"
  AI_SUCCESS :: int
  Importer_new :: 'i
  Exporter_new :: 'e
  ReadFile :: "filesystem \<Rightarrow> 'i \<Rightarrow> string \<Rightarrow> 32 word \<Rightarrow> aiScene option \<times> 'i"
  Importer_GetErrorString :: "'i \<Rightarrow> string"
  Export :: "filesystem \<Rightarrow> 'e \<Rightarrow> aiScene \<Rightarrow> string \<Rightarrow> string \<Rightarrow> int \<times> 'e \<times> filesystem"
  Exporter_GetErrorString :: "'e \<Rightarrow> string"
  GetExportFormatCount :: "'e \<Rightarrow> nat"
  GetExportFormatDescription :: "'e \<Rightarrow> nat \<Rightarrow> aiExportFormatDesc option"

subsection \<open>What a call can be observed to do\<close>

text \<open>
  Outside the object a call acts on the files, on the standard output (one entry of
  \<open>cout\<close> per line ended by \<open>std::endl\<close>) and on the library: \<open>calls\<close> lists the
  state-changing library calls in the order they were made, each with the arguments it
  was given.
\<close>

datatype lib_call =
  Call_ReadFile string "32 word"
| Call_Export aiScene string string

record machine =
  files :: filesystem
  cout :: "string list"
  calls :: "lib_call list"

subsection \<open>The class\<close>

text \<open>
  The variant without logging has the two handles; the variant of
  \<^verbatim>\<open>src/assimp_export.cpp\<close> adds the flag. \<open>getSupportedFormats\<close> and
  \<open>getLastError\<close> have the same text in both files and read the handles only: each is
  defined once, for any record with the two handles.
\<close>

record ('i, 'e) AssimpExportWrapper0 =
  importer :: 'i
  exporter :: 'e

record ('i, 'e) AssimpExportWrapper = "('i, 'e) AssimpExportWrapper0" +
  enable_logging :: bool

datatype failure = NullDereference

text \<open>\<open>std::to_string\<close> on an \<open>unsigned int\<close>: the decimal digits.\<close>

fun to_string :: "nat \<Rightarrow> string" where
  "to_string n =
     (if n < 10 then [char_of (48 + n)]
      else to_string (n div 10) @ [char_of (48 + n mod 10)])"

declare to_string.simps [simp del]

definition log :: "('i, 'e) AssimpExportWrapper \<Rightarrow> string \<Rightarrow> machine \<Rightarrow> machine" where
  "log self msg m =
     (if enable_logging self then m\<lparr>cout := cout m @ [''[assimp_export] '' @ msg]\<rparr>
      else m)"

definition AssimpExportWrapper_init ::
  "('i, 'e) assimp \<Rightarrow> bool \<Rightarrow> machine \<Rightarrow> ('i, 'e) AssimpExportWrapper \<times> machine" where
  "AssimpExportWrapper_init L enableLogging m =
     (\<lparr>importer = Importer_new L, exporter = Exporter_new L,
       enable_logging = enableLogging\<rparr>,
      if enableLogging then m\<lparr>cout := cout m @ [''[assimp_export] Logger enabled'']\<rparr>
      else m)"

definition AssimpExportWrapper0_init :: "('i, 'e) assimp \<Rightarrow> ('i, 'e) AssimpExportWrapper0" where
  "AssimpExportWrapper0_init L = \<lparr>importer = Importer_new L, exporter = Exporter_new L\<rparr>"

text \<open>
  The two library calls that change state, each recorded with its arguments as it is
  made.
\<close>

definition importer_ReadFile ::
  "('i, 'e) assimp \<Rightarrow> 'i \<Rightarrow> string \<Rightarrow> 32 word \<Rightarrow> machine \<Rightarrow> aiScene option \<times> 'i \<times> machine" where
  "importer_ReadFile L imp pFile pFlags m =
     (case ReadFile L (files m) imp pFile pFlags of
        (scene, imp') \<Rightarrow>
          (scene, imp', m\<lparr>calls := calls m @ [Call_ReadFile pFile pFlags]\<rparr>))"

definition exporter_Export ::
  "('i, 'e) assimp \<Rightarrow> 'e \<Rightarrow> aiScene \<Rightarrow> string \<Rightarrow> string \<Rightarrow> machine \<Rightarrow> int \<times> 'e \<times> machine" where
  "exporter_Export L ex scene pFormatId pPath m =
     (case Export L (files m) ex scene pFormatId pPath of
        (result, ex', files') \<Rightarrow>
          (result, ex',
           m\<lparr>files := files', calls := calls m @ [Call_Export scene pFormatId pPath]\<rparr>))"

subsubsection \<open>getSupportedFormats\<close>

text \<open>
  The loop asks for the count at every iteration and dereferences the descriptor
  pointer without a check; a null pointer there is the failure \<open>NullDereference\<close>.
  Nothing in the loop changes the exporter.
\<close>

function getSupportedFormats_loop ::
  "('i, 'e) assimp \<Rightarrow> 'e \<Rightarrow> nat \<Rightarrow> string list \<Rightarrow> failure + string list" where
  "getSupportedFormats_loop L ex i formats =
     (if i < GetExportFormatCount L ex then
        (case GetExportFormatDescription L ex i of
           None \<Rightarrow> Inl NullDereference
         | Some desc \<Rightarrow>
             getSupportedFormats_loop L ex (i + 1)
               (formats @ [id_desc desc @ '' - '' @ description desc]))
      else Inr formats)"
  by pat_completeness auto
termination
  by (relation "measure (\<lambda>(L, ex, i, formats). GetExportFormatCount L ex - i)") auto

declare getSupportedFormats_loop.simps [simp del]

definition getSupportedFormats ::
  "('i, 'e) assimp \<Rightarrow> ('i, 'e, 'z) AssimpExportWrapper0_scheme \<Rightarrow> failure + string list" where
  "getSupportedFormats L self = getSupportedFormats_loop L (exporter self) 0 []"

subsubsection \<open>usdzToObj\<close>

definition ppFlags :: "('i, 'e) assimp \<Rightarrow> 32 word" where
  "ppFlags L =
     aiProcess_Triangulate L OR aiProcess_FlipUVs L OR aiProcess_GenSmoothNormals L OR
     aiProcess_JoinIdenticalVertices L"

text \<open>The variant of \<^verbatim>\<open>src/assimp_export.cpp\<close>.\<close>

definition usdzToObj ::
  "('i, 'e) assimp \<Rightarrow> ('i, 'e) AssimpExportWrapper \<Rightarrow> machine \<Rightarrow> string \<Rightarrow> string \<Rightarrow>
     bool \<times> ('i, 'e) AssimpExportWrapper \<times> machine" where
  "usdzToObj L self m usdzFile objFile =
     (let m = log self ''Start converting USDZ -> OBJ'' m;
          m = log self (''Input: '' @ usdzFile) m;
          m = log self (''Output: '' @ objFile) m;
          m = log self
                ''Post-process flags: Triangulate | FlipUVs | GenSmoothNormals | JoinIdenticalVertices''
                m
      in case importer_ReadFile L (importer self) usdzFile (ppFlags L) m of
        (None, imp', m) \<Rightarrow>
          (let self = self\<lparr>importer := imp'\<rparr>;
               err = Importer_GetErrorString L (importer self);
               m = log self
                     (''Import failed: '' @ (if err = [] then ''<no error string>'' else err)) m
           in (False, self, m))
      | (Some scene, imp', m) \<Rightarrow>
          (let self = self\<lparr>importer := imp'\<rparr> in
           if mFlags scene AND AI_SCENE_FLAGS_INCOMPLETE L \<noteq> 0 then
             (let m = log self
                        ''Import failed: scene is incomplete (AI_SCENE_FLAGS_INCOMPLETE)'' m;
                  m = log self
                        (''Importer error: '' @ Importer_GetErrorString L (importer self)) m
              in (False, self, m))
           else if mRootNode scene = None then
             (let m = log self ''Import failed: scene->mRootNode is null'' m;
                  m = log self
                        (''Importer error: '' @ Importer_GetErrorString L (importer self)) m
              in (False, self, m))
           else
             (let m = log self ''Import succeeded.'' m;
                  m = log self
                        (''Meshes: '' @ to_string (unat (mNumMeshes scene)) @
                         '', Materials: '' @ to_string (unat (mNumMaterials scene)) @
                         '', Textures: '' @ to_string (unat (mNumTextures scene))) m;
                  m = log self ''Begin export to OBJ...'' m
              in case exporter_Export L (exporter self) scene ''obj'' objFile m of
                (result, ex', m) \<Rightarrow>
                  (let self = self\<lparr>exporter := ex'\<rparr> in
                   if result \<noteq> AI_SUCCESS L then
                     (let err = Exporter_GetErrorString L (exporter self);
                          m = log self
                                (''Export failed: '' @
                                 (if err = [] then ''<no error string>'' else err)) m
                      in (False, self, m))
                   else (True, self, log self ''Export succeeded.'' m)))))"

text \<open>
  The variant without logging. Its condition
  \<^verbatim>\<open>!scene || scene->mFlags & AI_SCENE_FLAGS_INCOMPLETE || !scene->mRootNode\<close>
  is evaluated left to right and stops at a null \<open>scene\<close>: the first case below.
\<close>

definition usdzToObj0 ::
  "('i, 'e) assimp \<Rightarrow> ('i, 'e) AssimpExportWrapper0 \<Rightarrow> machine \<Rightarrow> string \<Rightarrow> string \<Rightarrow>
     bool \<times> ('i, 'e) AssimpExportWrapper0 \<times> machine" where
  "usdzToObj0 L self m usdzFile objFile =
     (case importer_ReadFile L (importer self) usdzFile
             (aiProcess_Triangulate L OR aiProcess_FlipUVs L OR
              aiProcess_GenSmoothNormals L OR aiProcess_JoinIdenticalVertices L) m of
        (None, imp', m) \<Rightarrow> (False, self\<lparr>importer := imp'\<rparr>, m)
      | (Some scene, imp', m) \<Rightarrow>
          (let self = self\<lparr>importer := imp'\<rparr> in
           if mFlags scene AND AI_SCENE_FLAGS_INCOMPLETE L \<noteq> 0 \<or> mRootNode scene = None
           then (False, self, m)
           else
             (case exporter_Export L (exporter self) scene ''obj'' objFile m of
                (result, ex', m) \<Rightarrow> (result = AI_SUCCESS L, self\<lparr>exporter := ex'\<rparr>, m))))"

subsubsection \<open>getLastError\<close>

definition getLastError ::
  "('i, 'e) assimp \<Rightarrow> ('i, 'e, 'z) AssimpExportWrapper0_scheme \<Rightarrow> string" where
  "getLastError L self =
     (let importError = Importer_GetErrorString L (importer self);
          exportError = Exporter_GetErrorString L (exporter self)
      in if importError \<noteq> [] then ''Import: '' @ importError
         else if exportError \<noteq> [] then ''Export: '' @ exportError
         else [])"

subsection \<open>The Python module\<close>

text \<open>
  \<open>PYBIND11_MODULE\<close> exposes the class as \<open>AssimpExporter\<close> with three methods. A
  request is one method call on an object; \<open>run\<close> serves requests one after the other
  on the same object, as a script in one process does. \<open>get_supported_formats\<close> and
  \<open>get_last_error\<close> only read the handles.
\<close>

datatype request =
  Get_supported_formats
| Usdz_to_obj string string
| Get_last_error

datatype reply =
  Formats "failure + string list"
| Converted bool
| Last_error string

definition without_logging ::
  "('i, 'e) AssimpExportWrapper \<Rightarrow> ('i, 'e) AssimpExportWrapper0" where
  "without_logging self = \<lparr>importer = importer self, exporter = exporter self\<rparr>"

fun serve ::
  "('i, 'e) assimp \<Rightarrow> request \<Rightarrow> ('i, 'e) AssimpExportWrapper \<times> machine \<Rightarrow>
     reply \<times> ('i, 'e) AssimpExportWrapper \<times> machine" where
  "serve L Get_supported_formats (self, m) = (Formats (getSupportedFormats L self), self, m)"
| "serve L (Usdz_to_obj usdzFile objFile) (self, m) =
     (case usdzToObj L self m usdzFile objFile of (r, self', m') \<Rightarrow> (Converted r, self', m'))"
| "serve L Get_last_error (self, m) = (Last_error (getLastError L self), self, m)"

fun run ::
  "('i, 'e) assimp \<Rightarrow> request list \<Rightarrow> ('i, 'e) AssimpExportWrapper \<times> machine \<Rightarrow>
     reply list \<times> ('i, 'e) AssimpExportWrapper \<times> machine" where
  "run L [] s = ([], s)"
| "run L (q # qs) s =
     (case serve L q s of
        (r, s') \<Rightarrow> (case run L qs s' of (rs, s'') \<Rightarrow> (r # rs, s'')))"

text \<open>The same for the variant without logging.\<close>

fun serve0 ::
  "('i, 'e) assimp \<Rightarrow> request \<Rightarrow> ('i, 'e) AssimpExportWrapper0 \<times> machine \<Rightarrow>
     reply \<times> ('i, 'e) AssimpExportWrapper0 \<times> machine" where
  "serve0 L Get_supported_formats (self, m) = (Formats (getSupportedFormats L self), self, m)"
| "serve0 L (Usdz_to_obj usdzFile objFile) (self, m) =
     (case usdzToObj0 L self m usdzFile objFile of (r, self', m') \<Rightarrow> (Converted r, self', m'))"
| "serve0 L Get_last_error (self, m) = (Last_error (getLastError L self), self, m)"

fun run0 ::
  "('i, 'e) assimp \<Rightarrow> request list \<Rightarrow> ('i, 'e) AssimpExportWrapper0 \<times> machine \<Rightarrow>
     reply list \<times> ('i, 'e) AssimpExportWrapper0 \<times> machine" where
  "run0 L [] s = ([], s)"
| "run0 L (q # qs) s =
     (case serve0 L q s of
        (r, s') \<Rightarrow> (case run0 L qs s' of (rs, s'') \<Rightarrow> (r # rs, s'')))"

text \<open>The format identifiers of the \<open>Export\<close> calls of a call list, in order.\<close>

fun export_formats :: "lib_call list \<Rightarrow> string list" where
  "export_formats [] = []"
| "export_formats (Call_Export scene pFormatId pPath # cs) = pFormatId # export_formats cs"
| "export_formats (Call_ReadFile pFile pFlags # cs) = export_formats cs"

subsection \<open>What the specification says of the library\<close>

text \<open>
  Modelled from the spec: the import handle's answer to a path that does not exist.
  \<open>Importer::ReadFile\<close> is library code; the specification's error taxonomy
  (import-unreadable) and its testable properties say that such an input yields no
  scene and a non-empty import error string.
\<close>

definition missing_file_reported :: "('i, 'e) assimp \<Rightarrow> bool" where
  "missing_file_reported L \<longleftrightarrow>
     (\<forall>fs imp pFile pFlags. fs pFile = None \<longrightarrow>
        fst (ReadFile L fs imp pFile pFlags) = None \<and>
        Importer_GetErrorString L (snd (ReadFile L fs imp pFile pFlags)) \<noteq> [])"

text \<open>
  Modelled from the spec: the error state of the two handles. Both handles are
  ``initialized to default/empty state'', and each keeps one last-error string,
  ``overwritten on each operation'', which is empty ``after a fully successful
  operation'': after an import that gave a complete scene with a root node, and after
  an export that returned \<open>AI_SUCCESS\<close>. Nothing is said of the string beside an
  incomplete or rootless scene, which the specification counts among the error causes.
  The constructors, \<open>ReadFile\<close> and \<open>Export\<close> are library code.
\<close>

definition error_state_overwritten :: "('i, 'e) assimp \<Rightarrow> bool" where
  "error_state_overwritten L \<longleftrightarrow>
     Importer_GetErrorString L (Importer_new L) = [] \<and>
     Exporter_GetErrorString L (Exporter_new L) = [] \<and>
     (\<forall>fs imp pFile pFlags scene imp'.
        ReadFile L fs imp pFile pFlags = (Some scene, imp') \<and>
        mFlags scene AND AI_SCENE_FLAGS_INCOMPLETE L = 0 \<and> mRootNode scene \<noteq> None \<longrightarrow>
        Importer_GetErrorString L imp' = []) \<and>
     (\<forall>fs ex scene pFormatId pPath ex' fs'.
        Export L fs ex scene pFormatId pPath = (AI_SUCCESS L, ex', fs') \<longrightarrow>
        Exporter_GetErrorString L ex' = [])"

text \<open>
  Modelled from the spec: the descriptors of the export handle's format registry. A
  descriptor is ``an immutable (identifier, human-readable description) pair, one per
  supported output format''; \<open>GetExportFormatDescription\<close> returns one for every index
  below the count, and its identifier and description are non-empty.
\<close>

definition registry_named :: "('i, 'e) assimp \<Rightarrow> 'e \<Rightarrow> bool" where
  "registry_named L ex \<longleftrightarrow>
     (\<forall>i < GetExportFormatCount L ex.
        \<exists>desc. GetExportFormatDescription L ex i = Some desc \<and>
          id_desc desc \<noteq> [] \<and> description desc \<noteq> [])"

text \<open>
  Modelled from the spec: the registry over time. The sequence of descriptors is
  ``stable across calls within a process'': \<open>Exporter::Export\<close>, the one call by which
  the class changes the exporter, registers and unregisters nothing.
\<close>

definition registry_stable :: "('i, 'e) assimp \<Rightarrow> bool" where
  "registry_stable L \<longleftrightarrow>
     (\<forall>fs ex scene pFormatId pPath.
        GetExportFormatCount L (fst (snd (Export L fs ex scene pFormatId pPath))) =
          GetExportFormatCount L ex \<and>
        GetExportFormatDescription L (fst (snd (Export L fs ex scene pFormatId pPath))) =
          GetExportFormatDescription L ex)"

subsection \<open>A small library to run the class on\<close>

text \<open>
  An instance of the interface on which the class can be evaluated. A handle's state
  is its last error string. A file whose content is \<open>''usdz''\<close> imports to a complete
  scene, \<open>''partial''\<close> to a scene flagged incomplete, \<open>''rootless''\<close> to a scene
  without root node; anything else is unreadable. The exporter knows two formats and
  writes to any non-empty path. The constants have the values of the library's headers.
\<close>

definition stub_scene :: "32 word \<Rightarrow> nat option \<Rightarrow> aiScene" where
  "stub_scene flags root =
     \<lparr>mFlags = flags, mRootNode = root, mNumMeshes = 12, mNumMaterials = 3,
      mNumTextures = 0\<rparr>"

definition stub_ReadFile ::
  "filesystem \<Rightarrow> string \<Rightarrow> string \<Rightarrow> 32 word \<Rightarrow> aiScene option \<times> string" where
  "stub_ReadFile fs imp pFile pFlags =
     (case fs pFile of
        None \<Rightarrow> (None, ''Unable to open file'')
      | Some content \<Rightarrow>
          if content = ''usdz'' then (Some (stub_scene 0 (Some 1)), [])
          else if content = ''partial'' then (Some (stub_scene 1 (Some 1)), [])
          else if content = ''rootless'' then (Some (stub_scene 0 None), [])
          else (None, ''No suitable reader found''))"

definition stub_Export ::
  "filesystem \<Rightarrow> string \<Rightarrow> aiScene \<Rightarrow> string \<Rightarrow> string \<Rightarrow> int \<times> string \<times> filesystem" where
  "stub_Export fs ex scene pFormatId pPath =
     (if pFormatId \<in> {''obj'', ''stl''} \<and> pPath \<noteq> []
      then (0, [], fs(pPath \<mapsto> pFormatId))
      else (- 1, ''Cannot write file'', fs))"

definition stub_formats :: "aiExportFormatDesc list" where
  "stub_formats =
     [\<lparr>id_desc = ''obj'', description = ''Wavefront OBJ format''\<rparr>,
      \<lparr>id_desc = ''stl'', description = ''Stereolithography''\<rparr>]"

definition stub :: "(string, string) assimp" where
  "stub =
     \<lparr>aiProcess_Triangulate = 0x8,
      aiProcess_FlipUVs = 0x800000,
      aiProcess_GenSmoothNormals = 0x40,
      aiProcess_JoinIdenticalVertices = 0x2,
      AI_SCENE_FLAGS_INCOMPLETE = 0x1,
      AI_SUCCESS = 0,
      Importer_new = [],
      Exporter_new = [],
      ReadFile = stub_ReadFile,
      Importer_GetErrorString = (\<lambda>imp. imp),
      Export = stub_Export,
      Exporter_GetErrorString = (\<lambda>ex. ex),
      GetExportFormatCount = (\<lambda>ex. length stub_formats),
      GetExportFormatDescription =
        (\<lambda>ex i. if i < length stub_formats then Some (stub_formats ! i) else None)\<rparr>"

definition stub_files :: filesystem where
  "stub_files =
     [''model.usdz'' \<mapsto> ''usdz'', ''half.usdz'' \<mapsto> ''partial'',
      ''bare.usdz'' \<mapsto> ''rootless'', ''notes.txt'' \<mapsto> ''hello'']"

definition stub_machine :: machine where
  "stub_machine = \<lparr>files = stub_files, cout = [], calls = []\<rparr>"

definition stub_wrapper :: "bool \<Rightarrow> (string, string) AssimpExportWrapper" where
  "stub_wrapper enableLogging = fst (AssimpExportWrapper_init stub enableLogging stub_machine)"

section \<open>Properties\<close>

subsection \<open>Logging and the variant without it\<close>

lemma log_files [simp]: "files (log self msg m) = files m"
  by (simp add: log_def)

lemma log_calls [simp]: "calls (log self msg m) = calls m"
  by (simp add: log_def)

lemma without_logging_simps [simp]:
  "importer (without_logging self) = importer self"
  "exporter (without_logging self) = exporter self"
  "without_logging (self\<lparr>enable_logging := b\<rparr>) = without_logging self"
  "without_logging (self\<lparr>importer := imp\<rparr>) = (without_logging self)\<lparr>importer := imp\<rparr>"
  "without_logging (self\<lparr>exporter := ex\<rparr>) = (without_logging self)\<lparr>exporter := ex\<rparr>"
  by (simp_all add: without_logging_def)

lemma usdzToObj_sim:
  "fst (usdzToObj L self m usdzFile objFile) =
     fst (usdzToObj0 L (without_logging self) m usdzFile objFile) \<and>
   without_logging (fst (snd (usdzToObj L self m usdzFile objFile))) =
     fst (snd (usdzToObj0 L (without_logging self) m usdzFile objFile)) \<and>
   enable_logging (fst (snd (usdzToObj L self m usdzFile objFile))) = enable_logging self \<and>
   files (snd (snd (usdzToObj L self m usdzFile objFile))) =
     files (snd (snd (usdzToObj0 L (without_logging self) m usdzFile objFile))) \<and>
   calls (snd (snd (usdzToObj L self m usdzFile objFile))) =
     calls (snd (snd (usdzToObj0 L (without_logging self) m usdzFile objFile)))"
proof -
  obtain scene imp' where rf:
    "ReadFile L (files m) (importer self) usdzFile (ppFlags L) = (scene, imp')"
    by (cases "ReadFile L (files m) (importer self) usdzFile (ppFlags L)")
  show ?thesis
  proof (cases scene)
    case None
    with rf show ?thesis
      by (simp add: usdzToObj_def usdzToObj0_def ppFlags_def importer_ReadFile_def Let_def)
  next
    case (Some sc)
    obtain result ex' files' where ex:
      "Export L (files m) (exporter self) sc ''obj'' objFile = (result, ex', files')"
      by (cases "Export L (files m) (exporter self) sc ''obj'' objFile")
    from rf Some ex show ?thesis
      by (simp add: usdzToObj_def usdzToObj0_def ppFlags_def importer_ReadFile_def
          exporter_Export_def Let_def)
  qed
qed

lemma usdzToObj0_cases:
  assumes "ReadFile L (files m) (importer self) usdzFile (ppFlags L) = (scene, imp')"
  shows "usdzToObj0 L self m usdzFile objFile =
    (case scene of
       None \<Rightarrow>
         (False, self\<lparr>importer := imp'\<rparr>,
          m\<lparr>calls := calls m @ [Call_ReadFile usdzFile (ppFlags L)]\<rparr>)
     | Some sc \<Rightarrow>
         if mFlags sc AND AI_SCENE_FLAGS_INCOMPLETE L \<noteq> 0 \<or> mRootNode sc = None
         then (False, self\<lparr>importer := imp'\<rparr>,
               m\<lparr>calls := calls m @ [Call_ReadFile usdzFile (ppFlags L)]\<rparr>)
         else
           (fst (Export L (files m) (exporter self) sc ''obj'' objFile) = AI_SUCCESS L,
            self\<lparr>importer := imp',
                 exporter := fst (snd (Export L (files m) (exporter self) sc ''obj'' objFile))\<rparr>,
            m\<lparr>files := snd (snd (Export L (files m) (exporter self) sc ''obj'' objFile)),
              calls := calls m @
                [Call_ReadFile usdzFile (ppFlags L), Call_Export sc ''obj'' objFile]\<rparr>))"
  using assms
  by (simp add: usdzToObj0_def ppFlags_def importer_ReadFile_def exporter_Export_def
      Let_def split: prod.splits option.splits)

lemma usdzToObj0_result:
  "fst (usdzToObj0 L self m usdzFile objFile) \<longleftrightarrow>
     (\<exists>sc. fst (ReadFile L (files m) (importer self) usdzFile (ppFlags L)) = Some sc \<and>
        mFlags sc AND AI_SCENE_FLAGS_INCOMPLETE L = 0 \<and> mRootNode sc \<noteq> None \<and>
        fst (Export L (files m) (exporter self) sc ''obj'' objFile) = AI_SUCCESS L)"
proof -
  obtain scene imp' where rf:
    "ReadFile L (files m) (importer self) usdzFile (ppFlags L) = (scene, imp')"
    by (cases "ReadFile L (files m) (importer self) usdzFile (ppFlags L)")
  show ?thesis
    by (cases scene) (auto simp add: usdzToObj0_cases [OF rf] rf)
qed

lemma usdzToObj0_calls:
  "calls (snd (snd (usdzToObj0 L self m usdzFile objFile))) =
     calls m @ Call_ReadFile usdzFile (ppFlags L) #
       (case fst (ReadFile L (files m) (importer self) usdzFile (ppFlags L)) of
          None \<Rightarrow> []
        | Some sc \<Rightarrow>
            if mFlags sc AND AI_SCENE_FLAGS_INCOMPLETE L \<noteq> 0 \<or> mRootNode sc = None
            then [] else [Call_Export sc ''obj'' objFile])"
proof -
  obtain scene imp' where rf:
    "ReadFile L (files m) (importer self) usdzFile (ppFlags L) = (scene, imp')"
    by (cases "ReadFile L (files m) (importer self) usdzFile (ppFlags L)")
  show ?thesis
    by (cases scene) (auto simp add: usdzToObj0_cases [OF rf] rf)
qed

lemma usdzToObj0_cout:
  "usdzToObj0 L self (m\<lparr>cout := c\<rparr>) usdzFile objFile =
     (case usdzToObj0 L self m usdzFile objFile of (r, self', m') \<Rightarrow> (r, self', m'\<lparr>cout := c\<rparr>))"
proof -
  obtain scene imp' where rf:
    "ReadFile L (files m) (importer self) usdzFile (ppFlags L) = (scene, imp')"
    by (cases "ReadFile L (files m) (importer self) usdzFile (ppFlags L)")
  then have rf': "ReadFile L (files (m\<lparr>cout := c\<rparr>)) (importer self) usdzFile (ppFlags L) =
      (scene, imp')"
    by simp
  show ?thesis
    by (cases scene) (auto simp add: usdzToObj0_cases [OF rf] usdzToObj0_cases [OF rf'])
qed

lemma export_formats_append [simp]:
  "export_formats (xs @ ys) = export_formats xs @ export_formats ys"
  by (induction xs rule: export_formats.induct) simp_all

subsection \<open>The library instance\<close>

lemma stub_fields [simp]:
  "aiProcess_Triangulate stub = 0x8"
  "aiProcess_FlipUVs stub = 0x800000"
  "aiProcess_GenSmoothNormals stub = 0x40"
  "aiProcess_JoinIdenticalVertices stub = 0x2"
  "AI_SCENE_FLAGS_INCOMPLETE stub = 0x1"
  "AI_SUCCESS stub = 0"
  "Importer_new stub = []"
  "Exporter_new stub = []"
  "ReadFile stub = stub_ReadFile"
  "Importer_GetErrorString stub imp = imp"
  "Export stub = stub_Export"
  "Exporter_GetErrorString stub ex = ex"
  "GetExportFormatCount stub ex = 2"
  "GetExportFormatDescription stub ex i =
     (if i < 2 then Some (stub_formats ! i) else None)"
  by (simp_all add: stub_def stub_formats_def)

lemma stub_wrapper_fields [simp]:
  "importer (stub_wrapper b) = []"
  "exporter (stub_wrapper b) = []"
  "enable_logging (stub_wrapper b) = b"
  "without_logging (stub_wrapper b) = \<lparr>importer = [], exporter = []\<rparr>"
  by (simp_all add: stub_wrapper_def AssimpExportWrapper_init_def without_logging_def)

lemma stub_machine_fields [simp]:
  "files stub_machine = stub_files"
  "cout stub_machine = []"
  "calls stub_machine = []"
  by (simp_all add: stub_machine_def)

lemma stub_ReadFile_values:
  "stub_ReadFile stub_files imp ''model.usdz'' f = (Some (stub_scene 0 (Some 1)), [])"
  "stub_ReadFile stub_files imp ''half.usdz'' f = (Some (stub_scene 1 (Some 1)), [])"
  "stub_ReadFile stub_files imp ''bare.usdz'' f = (Some (stub_scene 0 None), [])"
  "stub_ReadFile stub_files imp ''notes.txt'' f = (None, ''No suitable reader found'')"
  "stub_ReadFile stub_files imp ''nowhere.usdz'' f = (None, ''Unable to open file'')"
  by (simp_all add: stub_ReadFile_def stub_files_def)

lemma stub_scene_fields [simp]:
  "mFlags (stub_scene fl root) = fl"
  "mRootNode (stub_scene fl root) = root"
  by (simp_all add: stub_scene_def)

lemma stub_Export_values:
  "stub_Export fs ex sc ''obj'' ''out.obj'' = (0, [], fs(''out.obj'' \<mapsto> ''obj''))"
  "stub_Export fs ex sc ''obj'' [] = (- 1, ''Cannot write file'', fs)"
  by (simp_all add: stub_Export_def)

subsection \<open>The returned boolean and the last error\<close>

text \<open>
  C1. Whatever the two paths, \<open>usdzToObj\<close> returns false when the import gives no scene,
  when the scene carries the incomplete flag and when it has no root node; it returns
  true exactly when the import passed these three checks and the export of that scene
  as \<open>''obj''\<close> to the output path returned \<open>AI_SUCCESS\<close>. The variant without logging
  returns the same value.
\<close>

theorem usdzToObj_returns:
  assumes "ReadFile L (files m) (importer self) usdzFile (ppFlags L) = (scene, imp')"
  shows "(scene = None \<longrightarrow> \<not> fst (usdzToObj L self m usdzFile objFile)) \<and>
    (\<forall>sc. scene = Some sc \<and> mFlags sc AND AI_SCENE_FLAGS_INCOMPLETE L \<noteq> 0 \<longrightarrow>
       \<not> fst (usdzToObj L self m usdzFile objFile)) \<and>
    (\<forall>sc. scene = Some sc \<and> mRootNode sc = None \<longrightarrow>
       \<not> fst (usdzToObj L self m usdzFile objFile)) \<and>
    (fst (usdzToObj L self m usdzFile objFile) \<longleftrightarrow>
       (\<exists>sc. scene = Some sc \<and> mFlags sc AND AI_SCENE_FLAGS_INCOMPLETE L = 0 \<and>
          mRootNode sc \<noteq> None \<and>
          fst (Export L (files m) (exporter self) sc ''obj'' objFile) = AI_SUCCESS L)) \<and>
    fst (usdzToObj0 L (without_logging self) m usdzFile objFile) =
      fst (usdzToObj L self m usdzFile objFile)"
proof -
  have "fst (usdzToObj L self m usdzFile objFile) =
      fst (usdzToObj0 L (without_logging self) m usdzFile objFile)"
    using usdzToObj_sim [of L self m usdzFile objFile] by simp
  moreover have "fst (usdzToObj0 L (without_logging self) m usdzFile objFile) \<longleftrightarrow>
      (\<exists>sc. scene = Some sc \<and> mFlags sc AND AI_SCENE_FLAGS_INCOMPLETE L = 0 \<and>
          mRootNode sc \<noteq> None \<and>
          fst (Export L (files m) (exporter self) sc ''obj'' objFile) = AI_SUCCESS L)"
    using assms by (simp add: usdzToObj0_result)
  ultimately show ?thesis by auto
qed

theorem usdzToObj_returns_witness:
  "fst (usdzToObj stub (stub_wrapper True) stub_machine ''model.usdz'' ''out.obj'') \<and>
   fst (usdzToObj0 stub (without_logging (stub_wrapper True)) stub_machine
          ''model.usdz'' ''out.obj'') \<and>
   \<not> fst (usdzToObj stub (stub_wrapper True) stub_machine ''nowhere.usdz'' ''out.obj'') \<and>
   \<not> fst (usdzToObj stub (stub_wrapper True) stub_machine ''half.usdz'' ''out.obj'') \<and>
   \<not> fst (usdzToObj stub (stub_wrapper True) stub_machine ''bare.usdz'' ''out.obj'') \<and>
   \<not> fst (usdzToObj stub (stub_wrapper True) stub_machine ''model.usdz'' [])"
  using usdzToObj_returns [of stub stub_machine "stub_wrapper True" "''model.usdz''"
      "Some (stub_scene 0 (Some 1))" "[]" "''out.obj''"]
    usdzToObj_returns [of stub stub_machine "stub_wrapper True" "''nowhere.usdz''"
      None "''Unable to open file''" "''out.obj''"]
    usdzToObj_returns [of stub stub_machine "stub_wrapper True" "''half.usdz''"
      "Some (stub_scene 1 (Some 1))" "[]" "''out.obj''"]
    usdzToObj_returns [of stub stub_machine "stub_wrapper True" "''bare.usdz''"
      "Some (stub_scene 0 None)" "[]" "''out.obj''"]
    usdzToObj_returns [of stub stub_machine "stub_wrapper True" "''model.usdz''"
      "Some (stub_scene 0 (Some 1))" "[]" "[]"]
  by (simp add: stub_ReadFile_values stub_Export_values)

text \<open>
  C2. \<open>getLastError\<close> returns the importer's error string after \<open>''Import: ''\<close> when it
  is not empty, otherwise the exporter's after \<open>''Export: ''\<close> when that is not empty,
  otherwise the empty string; with both non-empty the import error is the one
  reported. The function has the same text in both variants and is stated for both.
\<close>

theorem getLastError_import_first:
  "getLastError L self =
     (if Importer_GetErrorString L (importer self) \<noteq> []
      then ''Import: '' @ Importer_GetErrorString L (importer self)
      else if Exporter_GetErrorString L (exporter self) \<noteq> []
      then ''Export: '' @ Exporter_GetErrorString L (exporter self)
      else []) \<and>
   (Importer_GetErrorString L (importer self) \<noteq> [] \<and>
    Exporter_GetErrorString L (exporter self) \<noteq> [] \<longrightarrow>
      getLastError L self = ''Import: '' @ Importer_GetErrorString L (importer self))"
  by (simp add: getLastError_def)

theorem getLastError_import_first_witness:
  "getLastError stub \<lparr>importer = ''bad file'', exporter = ''bad path''\<rparr> = ''Import: bad file'' \<and>
   getLastError stub \<lparr>importer = [], exporter = ''bad path''\<rparr> = ''Export: bad path'' \<and>
   getLastError stub \<lparr>importer = [], exporter = []\<rparr> = [] \<and>
   getLastError stub
     \<lparr>importer = ''bad file'', exporter = ''bad path'', enable_logging = True\<rparr> =
     ''Import: bad file''"
  using getLastError_import_first [of stub "\<lparr>importer = ''bad file'', exporter = ''bad path''\<rparr>"]
    getLastError_import_first [of stub "\<lparr>importer = [], exporter = ''bad path''\<rparr>"]
    getLastError_import_first [of stub "\<lparr>importer = [], exporter = []\<rparr>"]
    getLastError_import_first [of stub
      "\<lparr>importer = ''bad file'', exporter = ''bad path'', enable_logging = True\<rparr>"]
  by simp

subsection \<open>The format loop\<close>

lemma getSupportedFormats_loop_closed:
  assumes "\<forall>j. i \<le> j \<and> j < GetExportFormatCount L ex \<longrightarrow>
             GetExportFormatDescription L ex j \<noteq> None"
  shows "getSupportedFormats_loop L ex i formats =
    Inr (formats @
      map (\<lambda>j. id_desc (the (GetExportFormatDescription L ex j)) @ '' - '' @
                description (the (GetExportFormatDescription L ex j)))
        [i ..< GetExportFormatCount L ex])"
  using assms
proof (induction L ex i formats rule: getSupportedFormats_loop.induct)
  case (1 L ex i formats)
  show ?case
  proof (cases "i < GetExportFormatCount L ex")
    case True
    with "1.prems" obtain desc where d: "GetExportFormatDescription L ex i = Some desc"
      by auto
    have "getSupportedFormats_loop L ex (i + 1)
            (formats @ [id_desc desc @ '' - '' @ description desc]) =
          Inr ((formats @ [id_desc desc @ '' - '' @ description desc]) @
            map (\<lambda>j. id_desc (the (GetExportFormatDescription L ex j)) @ '' - '' @
                      description (the (GetExportFormatDescription L ex j)))
              [i + 1 ..< GetExportFormatCount L ex])"
      using "1.IH" [OF True d] "1.prems" by simp
    with True d show ?thesis
      by (subst getSupportedFormats_loop.simps) (simp add: upt_conv_Cons)
  next
    case False
    then show ?thesis
      by (subst getSupportedFormats_loop.simps) simp
  qed
qed

lemma getSupportedFormats_loop_empty:
  "GetExportFormatCount L ex = 0 \<Longrightarrow> getSupportedFormats_loop L ex 0 [] = Inr []"
  by (subst getSupportedFormats_loop.simps) simp

text \<open>
  C3. \<open>getSupportedFormats\<close> asks the exporter for its format count and, when the
  library hands out a descriptor for every index below the count, returns for each
  index in turn the descriptor's identifier, \<open>'' - ''\<close> and its description, in index
  order. With a count of zero it returns the empty list, never a failure.
\<close>

theorem getSupportedFormats_lists_registry:
  "((\<forall>i < GetExportFormatCount L (exporter self).
       GetExportFormatDescription L (exporter self) i \<noteq> None) \<longrightarrow>
    getSupportedFormats L self =
      Inr (map (\<lambda>i. id_desc (the (GetExportFormatDescription L (exporter self) i)) @ '' - '' @
                     description (the (GetExportFormatDescription L (exporter self) i)))
             [0 ..< GetExportFormatCount L (exporter self)])) \<and>
   (GetExportFormatCount L (exporter self) = 0 \<longrightarrow> getSupportedFormats L self = Inr [])"
  using getSupportedFormats_loop_closed [of 0 L "exporter self" "[]"]
    getSupportedFormats_loop_empty [of L "exporter self"]
  by (simp add: getSupportedFormats_def)

theorem getSupportedFormats_lists_registry_witness:
  "getSupportedFormats stub (stub_wrapper False) =
     Inr [''obj - Wavefront OBJ format'', ''stl - Stereolithography''] \<and>
   getSupportedFormats (stub\<lparr>GetExportFormatCount := \<lambda>ex. 0\<rparr>) (stub_wrapper False) = Inr []"
  using getSupportedFormats_lists_registry [of stub "stub_wrapper False"]
    getSupportedFormats_lists_registry
      [of "stub\<lparr>GetExportFormatCount := \<lambda>ex. 0\<rparr>" "stub_wrapper False"]
  by (simp add: stub_formats_def upt_rec)

text \<open>
  C4. Every call of \<open>usdzToObj\<close>, in either variant, makes exactly one \<open>ReadFile\<close> call,
  first of all its library calls, on the input path and with the flags
  \<open>Triangulate | FlipUVs | GenSmoothNormals | JoinIdenticalVertices\<close>: a bit is set in
  them exactly when one of the four constants sets it. Neither an argument nor the
  object's state enters the flags.
\<close>

theorem usdzToObj_import_flags:
  "(\<exists>rest.
      calls (snd (snd (usdzToObj L self m usdzFile objFile))) =
        calls m @
          Call_ReadFile usdzFile
            (aiProcess_Triangulate L OR aiProcess_FlipUVs L OR
             aiProcess_GenSmoothNormals L OR aiProcess_JoinIdenticalVertices L) # rest \<and>
      calls (snd (snd (usdzToObj0 L (without_logging self) m usdzFile objFile))) =
        calls m @
          Call_ReadFile usdzFile
            (aiProcess_Triangulate L OR aiProcess_FlipUVs L OR
             aiProcess_GenSmoothNormals L OR aiProcess_JoinIdenticalVertices L) # rest \<and>
      (\<forall>c \<in> set rest. \<forall>pFile pFlags. c \<noteq> Call_ReadFile pFile pFlags)) \<and>
   (\<forall>n. bit (ppFlags L) n \<longleftrightarrow>
      bit (aiProcess_Triangulate L) n \<or> bit (aiProcess_FlipUVs L) n \<or>
      bit (aiProcess_GenSmoothNormals L) n \<or> bit (aiProcess_JoinIdenticalVertices L) n)"
proof -
  have "calls (snd (snd (usdzToObj L self m usdzFile objFile))) =
      calls (snd (snd (usdzToObj0 L (without_logging self) m usdzFile objFile)))"
    using usdzToObj_sim [of L self m usdzFile objFile] by simp
  moreover have "\<exists>rest.
      calls (snd (snd (usdzToObj0 L (without_logging self) m usdzFile objFile))) =
        calls m @ Call_ReadFile usdzFile (ppFlags L) # rest \<and>
      (\<forall>c \<in> set rest. \<forall>pFile pFlags. c \<noteq> Call_ReadFile pFile pFlags)"
    by (auto simp add: usdzToObj0_calls split: option.splits)
  moreover have "\<forall>n. bit (ppFlags L) n \<longleftrightarrow>
      bit (aiProcess_Triangulate L) n \<or> bit (aiProcess_FlipUVs L) n \<or>
      bit (aiProcess_GenSmoothNormals L) n \<or> bit (aiProcess_JoinIdenticalVertices L) n"
    by (simp add: ppFlags_def bit_or_iff)
  ultimately show ?thesis
    by (simp add: ppFlags_def)
qed

theorem usdzToObj_import_flags_witness:
  "calls (snd (snd (usdzToObj stub (stub_wrapper True) stub_machine ''model.usdz'' ''out.obj''))) =
     [Call_ReadFile ''model.usdz'' 0x80004A,
      Call_Export (stub_scene 0 (Some 1)) ''obj'' ''out.obj''] \<and>
   ppFlags stub = 0x80004A"
proof -
  have v: "ppFlags stub = 0x80004A"
    by (simp add: ppFlags_def)
  have c: "calls (snd (snd (usdzToObj0 stub (without_logging (stub_wrapper True)) stub_machine
        ''model.usdz'' ''out.obj''))) =
     [Call_ReadFile ''model.usdz'' 0x80004A,
      Call_Export (stub_scene 0 (Some 1)) ''obj'' ''out.obj'']"
    by (simp add: usdzToObj0_calls stub_ReadFile_values v)
  show ?thesis
    using usdzToObj_import_flags [of stub "stub_wrapper True" stub_machine "''model.usdz''"
        "''out.obj''"] c v
    by auto
qed

subsection \<open>Requests served by the two variants\<close>

lemma machine_cout_only:
  fixes m m0 :: machine
  shows "files m0 = files m \<Longrightarrow> calls m0 = calls m \<Longrightarrow> m0 = m\<lparr>cout := cout m0\<rparr>"
  by (rule machine.equality) simp_all

lemma usdzToObj0_machine:
  assumes "files m0 = files m" "calls m0 = calls m"
  shows "fst (usdzToObj0 L self m0 usdzFile objFile) = fst (usdzToObj0 L self m usdzFile objFile)"
    and "fst (snd (usdzToObj0 L self m0 usdzFile objFile)) =
         fst (snd (usdzToObj0 L self m usdzFile objFile))"
    and "files (snd (snd (usdzToObj0 L self m0 usdzFile objFile))) =
         files (snd (snd (usdzToObj0 L self m usdzFile objFile)))"
    and "calls (snd (snd (usdzToObj0 L self m0 usdzFile objFile))) =
         calls (snd (snd (usdzToObj0 L self m usdzFile objFile)))"
proof -
  have "usdzToObj0 L self (m\<lparr>cout := cout m0\<rparr>) usdzFile objFile =
      (case usdzToObj0 L self m usdzFile objFile of
         (r, self', m') \<Rightarrow> (r, self', m'\<lparr>cout := cout m0\<rparr>))"
    by (rule usdzToObj0_cout)
  then have e: "usdzToObj0 L self m0 usdzFile objFile =
      (case usdzToObj0 L self m usdzFile objFile of
         (r, self', m') \<Rightarrow> (r, self', m'\<lparr>cout := cout m0\<rparr>))"
    using machine_cout_only [OF assms] by simp
  show "fst (usdzToObj0 L self m0 usdzFile objFile) = fst (usdzToObj0 L self m usdzFile objFile)"
    unfolding e by (simp split: prod.splits)
  show "fst (snd (usdzToObj0 L self m0 usdzFile objFile)) =
     fst (snd (usdzToObj0 L self m usdzFile objFile))"
    unfolding e by (simp split: prod.splits)
  show "files (snd (snd (usdzToObj0 L self m0 usdzFile objFile))) =
     files (snd (snd (usdzToObj0 L self m usdzFile objFile)))"
    unfolding e by (simp split: prod.splits)
  show "calls (snd (snd (usdzToObj0 L self m0 usdzFile objFile))) =
     calls (snd (snd (usdzToObj0 L self m usdzFile objFile)))"
    unfolding e by (simp split: prod.splits)
qed

lemma queries_without_logging:
  "getSupportedFormats L (without_logging self) = getSupportedFormats L self"
  "getLastError L (without_logging self) = getLastError L self"
  by (simp_all add: getSupportedFormats_def getLastError_def)

lemma serve_Usdz_to_obj:
  "serve L (Usdz_to_obj usdzFile objFile) (self, m) =
     (Converted (fst (usdzToObj L self m usdzFile objFile)),
      snd (usdzToObj L self m usdzFile objFile))"
  by (simp split: prod.splits)

lemma serve0_Usdz_to_obj:
  "serve0 L (Usdz_to_obj usdzFile objFile) (self, m) =
     (Converted (fst (usdzToObj0 L self m usdzFile objFile)),
      snd (usdzToObj0 L self m usdzFile objFile))"
  by (simp split: prod.splits)

lemma run_Cons:
  "run L (q # qs) s =
     (fst (serve L q s) # fst (run L qs (snd (serve L q s))),
      snd (run L qs (snd (serve L q s))))"
  by (simp split: prod.splits)

lemma run0_Cons:
  "run0 L (q # qs) s =
     (fst (serve0 L q s) # fst (run0 L qs (snd (serve0 L q s))),
      snd (run0 L qs (snd (serve0 L q s))))"
  by (simp split: prod.splits)

lemma serve_sim:
  assumes "files m0 = files m" "calls m0 = calls m"
  shows "fst (serve L q (self, m)) = fst (serve0 L q (without_logging self, m0)) \<and>
    without_logging (fst (snd (serve L q (self, m)))) =
      fst (snd (serve0 L q (without_logging self, m0))) \<and>
    enable_logging (fst (snd (serve L q (self, m)))) = enable_logging self \<and>
    files (snd (snd (serve0 L q (without_logging self, m0)))) =
      files (snd (snd (serve L q (self, m)))) \<and>
    calls (snd (snd (serve0 L q (without_logging self, m0)))) =
      calls (snd (snd (serve L q (self, m))))"
proof (cases q)
  case Get_supported_formats
  with assms show ?thesis by (simp add: queries_without_logging)
next
  case (Usdz_to_obj usdzFile objFile)
  show ?thesis
    unfolding Usdz_to_obj serve_Usdz_to_obj serve0_Usdz_to_obj
    using usdzToObj_sim [of L self m usdzFile objFile]
      usdzToObj0_machine [OF assms, of L "without_logging self" usdzFile objFile]
    by simp
next
  case Get_last_error
  with assms show ?thesis by (simp add: queries_without_logging)
qed

lemma run_sim:
  assumes "files m0 = files m" "calls m0 = calls m"
  shows "fst (run L qs (self, m)) = fst (run0 L qs (without_logging self, m0)) \<and>
    without_logging (fst (snd (run L qs (self, m)))) =
      fst (snd (run0 L qs (without_logging self, m0))) \<and>
    enable_logging (fst (snd (run L qs (self, m)))) = enable_logging self \<and>
    files (snd (snd (run0 L qs (without_logging self, m0)))) =
      files (snd (snd (run L qs (self, m)))) \<and>
    calls (snd (snd (run0 L qs (without_logging self, m0)))) =
      calls (snd (snd (run L qs (self, m))))"
  using assms
proof (induction qs arbitrary: self m m0)
  case Nil
  then show ?case by simp
next
  case (Cons q qs)
  obtain r self' m' where s: "serve L q (self, m) = (r, self', m')"
    by (cases "serve L q (self, m)")
  obtain r0 self0 m0' where s0: "serve0 L q (without_logging self, m0) = (r0, self0, m0')"
    by (cases "serve0 L q (without_logging self, m0)")
  from serve_sim [OF Cons.prems, of L q self] s s0
  have rel: "r = r0" "self0 = without_logging self'" "enable_logging self' = enable_logging self"
    "files m0' = files m'" "calls m0' = calls m'"
    by simp_all
  from Cons.IH [OF rel(4) rel(5), of self'] show ?case
    unfolding run_Cons run0_Cons s s0 rel(1) rel(2)
    by (simp add: rel(3))
qed

text \<open>
  C5. Two runs that differ only in \<open>enable_logging\<close>, and so in what has been printed
  so far, take the same decisions: \<open>usdzToObj\<close> returns the same boolean, leaves the two
  handles and the files in the same state and makes the same library calls with the same
  arguments; a whole sequence of requests gets the same replies. Only \<open>cout\<close> differs.
\<close>

theorem logging_is_observational:
  "fst (usdzToObj L (self\<lparr>enable_logging := a\<rparr>) (m\<lparr>cout := c\<rparr>) usdzFile objFile) =
     fst (usdzToObj L (self\<lparr>enable_logging := b\<rparr>) (m\<lparr>cout := d\<rparr>) usdzFile objFile) \<and>
   without_logging
       (fst (snd (usdzToObj L (self\<lparr>enable_logging := a\<rparr>) (m\<lparr>cout := c\<rparr>) usdzFile objFile))) =
     without_logging
       (fst (snd (usdzToObj L (self\<lparr>enable_logging := b\<rparr>) (m\<lparr>cout := d\<rparr>) usdzFile objFile))) \<and>
   files (snd (snd (usdzToObj L (self\<lparr>enable_logging := a\<rparr>) (m\<lparr>cout := c\<rparr>) usdzFile objFile))) =
     files (snd (snd (usdzToObj L (self\<lparr>enable_logging := b\<rparr>) (m\<lparr>cout := d\<rparr>) usdzFile objFile))) \<and>
   calls (snd (snd (usdzToObj L (self\<lparr>enable_logging := a\<rparr>) (m\<lparr>cout := c\<rparr>) usdzFile objFile))) =
     calls (snd (snd (usdzToObj L (self\<lparr>enable_logging := b\<rparr>) (m\<lparr>cout := d\<rparr>) usdzFile objFile))) \<and>
   fst (run L qs (self\<lparr>enable_logging := a\<rparr>, m\<lparr>cout := c\<rparr>)) =
     fst (run L qs (self\<lparr>enable_logging := b\<rparr>, m\<lparr>cout := d\<rparr>))"
proof -
  have eq: "files (m\<lparr>cout := d\<rparr>) = files (m\<lparr>cout := c\<rparr>)"
    "calls (m\<lparr>cout := d\<rparr>) = calls (m\<lparr>cout := c\<rparr>)"
    by simp_all
  have w: "without_logging (self\<lparr>enable_logging := a\<rparr>) =
      without_logging (self\<lparr>enable_logging := b\<rparr>)"
    by simp
  have ua: "fst (usdzToObj L (self\<lparr>enable_logging := a\<rparr>) (m\<lparr>cout := c\<rparr>) usdzFile objFile) =
        fst (usdzToObj0 L (without_logging self) (m\<lparr>cout := c\<rparr>) usdzFile objFile) \<and>
      without_logging (fst (snd (usdzToObj L (self\<lparr>enable_logging := a\<rparr>) (m\<lparr>cout := c\<rparr>)
          usdzFile objFile))) =
        fst (snd (usdzToObj0 L (without_logging self) (m\<lparr>cout := c\<rparr>) usdzFile objFile)) \<and>
      files (snd (snd (usdzToObj L (self\<lparr>enable_logging := a\<rparr>) (m\<lparr>cout := c\<rparr>)
          usdzFile objFile))) =
        files (snd (snd (usdzToObj0 L (without_logging self) (m\<lparr>cout := c\<rparr>) usdzFile objFile))) \<and>
      calls (snd (snd (usdzToObj L (self\<lparr>enable_logging := a\<rparr>) (m\<lparr>cout := c\<rparr>)
          usdzFile objFile))) =
        calls (snd (snd (usdzToObj0 L (without_logging self) (m\<lparr>cout := c\<rparr>) usdzFile objFile)))"
    using usdzToObj_sim [of L "self\<lparr>enable_logging := a\<rparr>" "m\<lparr>cout := c\<rparr>" usdzFile objFile]
    by simp
  have ub: "fst (usdzToObj L (self\<lparr>enable_logging := b\<rparr>) (m\<lparr>cout := d\<rparr>) usdzFile objFile) =
        fst (usdzToObj0 L (without_logging self) (m\<lparr>cout := d\<rparr>) usdzFile objFile) \<and>
      without_logging (fst (snd (usdzToObj L (self\<lparr>enable_logging := b\<rparr>) (m\<lparr>cout := d\<rparr>)
          usdzFile objFile))) =
        fst (snd (usdzToObj0 L (without_logging self) (m\<lparr>cout := d\<rparr>) usdzFile objFile)) \<and>
      files (snd (snd (usdzToObj L (self\<lparr>enable_logging := b\<rparr>) (m\<lparr>cout := d\<rparr>)
          usdzFile objFile))) =
        files (snd (snd (usdzToObj0 L (without_logging self) (m\<lparr>cout := d\<rparr>) usdzFile objFile))) \<and>
      calls (snd (snd (usdzToObj L (self\<lparr>enable_logging := b\<rparr>) (m\<lparr>cout := d\<rparr>)
          usdzFile objFile))) =
        calls (snd (snd (usdzToObj0 L (without_logging self) (m\<lparr>cout := d\<rparr>) usdzFile objFile)))"
    using usdzToObj_sim [of L "self\<lparr>enable_logging := b\<rparr>" "m\<lparr>cout := d\<rparr>" usdzFile objFile]
    by simp
  have ra: "fst (run L qs (self\<lparr>enable_logging := a\<rparr>, m\<lparr>cout := c\<rparr>)) =
      fst (run0 L qs (without_logging self, m))"
    using run_sim [of m "m\<lparr>cout := c\<rparr>" L qs "self\<lparr>enable_logging := a\<rparr>"] by simp
  have rb: "fst (run L qs (self\<lparr>enable_logging := b\<rparr>, m\<lparr>cout := d\<rparr>)) =
      fst (run0 L qs (without_logging self, m))"
    using run_sim [of m "m\<lparr>cout := d\<rparr>" L qs "self\<lparr>enable_logging := b\<rparr>"] by simp
  show ?thesis
    using ua ub ra rb usdzToObj0_machine [OF eq, of L "without_logging self" usdzFile objFile]
    by simp
qed

theorem logging_is_observational_witness:
  "fst (usdzToObj stub (stub_wrapper True) stub_machine ''model.usdz'' ''out.obj'') =
     fst (usdzToObj stub (stub_wrapper False) stub_machine ''model.usdz'' ''out.obj'') \<and>
   cout (snd (snd (usdzToObj stub (stub_wrapper False) stub_machine ''model.usdz'' ''out.obj''))) = [] \<and>
   length (cout (snd (snd
     (usdzToObj stub (stub_wrapper True) stub_machine ''model.usdz'' ''out.obj'')))) = 8"
proof -
  have t: "stub_wrapper True = (stub_wrapper True)\<lparr>enable_logging := True\<rparr>"
    and f: "stub_wrapper False = (stub_wrapper True)\<lparr>enable_logging := False\<rparr>"
    by (simp_all add: stub_wrapper_def AssimpExportWrapper_init_def)
  have m: "stub_machine = stub_machine\<lparr>cout := []\<rparr>"
    by (simp add: stub_machine_def)
  have "fst (usdzToObj stub (stub_wrapper True) stub_machine ''model.usdz'' ''out.obj'') =
     fst (usdzToObj stub (stub_wrapper False) stub_machine ''model.usdz'' ''out.obj'')"
    using logging_is_observational [where L = stub and self = "stub_wrapper True" and a = True
        and b = False and m = stub_machine and c = "[]" and d = "[]"
        and usdzFile = "''model.usdz''" and objFile = "''out.obj''" and qs = "[]"]
    unfolding t [symmetric] f [symmetric] m [symmetric] by simp
  moreover have
    "cout (snd (snd (usdzToObj stub (stub_wrapper False) stub_machine ''model.usdz'' ''out.obj''))) = []"
    by (simp add: usdzToObj_def log_def importer_ReadFile_def exporter_Export_def Let_def
        stub_ReadFile_values stub_Export_values)
  moreover have "length (cout (snd (snd
     (usdzToObj stub (stub_wrapper True) stub_machine ''model.usdz'' ''out.obj'')))) = 8"
    by (simp add: usdzToObj_def log_def importer_ReadFile_def exporter_Export_def Let_def
        stub_ReadFile_values stub_Export_values)
  ultimately show ?thesis by simp
qed

text \<open>
  C9. The two variants of the class differ in log output only. On the same library,
  the same files and the same handle states, \<open>usdzToObj\<close> returns the same boolean in
  both, leaves the same handle states and files and makes the same library calls;
  \<open>getSupportedFormats\<close> and \<open>getLastError\<close> return the same strings; the constructors
  build the same handles; and any sequence of requests gets the same replies.
\<close>

theorem variants_equivalent:
  "fst (usdzToObj L self m usdzFile objFile) =
     fst (usdzToObj0 L (without_logging self) (m\<lparr>cout := c\<rparr>) usdzFile objFile) \<and>
   without_logging (fst (snd (usdzToObj L self m usdzFile objFile))) =
     fst (snd (usdzToObj0 L (without_logging self) (m\<lparr>cout := c\<rparr>) usdzFile objFile)) \<and>
   files (snd (snd (usdzToObj L self m usdzFile objFile))) =
     files (snd (snd (usdzToObj0 L (without_logging self) (m\<lparr>cout := c\<rparr>) usdzFile objFile))) \<and>
   calls (snd (snd (usdzToObj L self m usdzFile objFile))) =
     calls (snd (snd (usdzToObj0 L (without_logging self) (m\<lparr>cout := c\<rparr>) usdzFile objFile))) \<and>
   getSupportedFormats L self = getSupportedFormats L (without_logging self) \<and>
   getLastError L self = getLastError L (without_logging self) \<and>
   without_logging (fst (AssimpExportWrapper_init L enableLogging m)) =
     AssimpExportWrapper0_init L \<and>
   fst (run L qs (self, m)) = fst (run0 L qs (without_logging self, m\<lparr>cout := c\<rparr>))"
proof -
  have eq: "files (m\<lparr>cout := c\<rparr>) = files m" "calls (m\<lparr>cout := c\<rparr>) = calls m"
    by simp_all
  have "without_logging (fst (AssimpExportWrapper_init L enableLogging m)) =
      AssimpExportWrapper0_init L"
    by (simp add: AssimpExportWrapper_init_def AssimpExportWrapper0_init_def
        without_logging_def)
  then show ?thesis
    using usdzToObj_sim [of L self m usdzFile objFile]
      usdzToObj0_machine [OF eq, of L "without_logging self" usdzFile objFile]
      run_sim [OF eq, of L qs self]
    by (simp add: queries_without_logging)
qed

theorem variants_equivalent_witness:
  "fst (run stub
     [Get_last_error, Usdz_to_obj ''nowhere.usdz'' ''out.obj'', Get_last_error,
      Usdz_to_obj ''model.usdz'' ''out.obj'', Get_supported_formats]
     (stub_wrapper True, stub_machine)) =
   [Last_error [], Converted False, Last_error ''Import: Unable to open file'',
    Converted True,
    Formats (Inr [''obj - Wavefront OBJ format'', ''stl - Stereolithography''])]"
proof -
  have m: "stub_machine\<lparr>cout := []\<rparr> = stub_machine"
    by (simp add: stub_machine_def)
  have a: "fst (run0 stub
     [Get_last_error, Usdz_to_obj ''nowhere.usdz'' ''out.obj'', Get_last_error,
      Usdz_to_obj ''model.usdz'' ''out.obj'', Get_supported_formats]
     (without_logging (stub_wrapper True), stub_machine)) =
   [Last_error [], Converted False, Last_error ''Import: Unable to open file'',
    Converted True,
    Formats (Inr [''obj - Wavefront OBJ format'', ''stl - Stereolithography''])]"
    by code_simp
  have b: "fst (run stub
     [Get_last_error, Usdz_to_obj ''nowhere.usdz'' ''out.obj'', Get_last_error,
      Usdz_to_obj ''model.usdz'' ''out.obj'', Get_supported_formats]
     (stub_wrapper True, stub_machine)) =
    fst (run0 stub
     [Get_last_error, Usdz_to_obj ''nowhere.usdz'' ''out.obj'', Get_last_error,
      Usdz_to_obj ''model.usdz'' ''out.obj'', Get_supported_formats]
     (without_logging (stub_wrapper True), stub_machine))"
    using variants_equivalent [where L = stub and self = "stub_wrapper True"
        and m = stub_machine and c = "[]" and usdzFile = "[]" and objFile = "[]"
        and enableLogging = True and
        qs = "[Get_last_error, Usdz_to_obj ''nowhere.usdz'' ''out.obj'', Get_last_error,
          Usdz_to_obj ''model.usdz'' ''out.obj'', Get_supported_formats]"]
    unfolding m by (elim conjE)
  show ?thesis by (rule trans [OF b a])
qed

text \<open>
  C10. A call of \<open>usdzToObj\<close> makes at most one \<open>Export\<close> call, and its format identifier
  is the literal \<open>''obj''\<close>: the identifiers of the exports made are the same for any two
  output paths, and every \<open>Export\<close> call the function adds to the call list carries
  \<open>''obj''\<close> and the output path as it was given.
\<close>

theorem usdzToObj_export_format:
  "(\<exists>n \<le> 1.
      export_formats (calls (snd (snd (usdzToObj L self m usdzFile objFile)))) =
        export_formats (calls m) @ replicate n ''obj'' \<and>
      export_formats (calls (snd (snd (usdzToObj L self m usdzFile objFile')))) =
        export_formats (calls m) @ replicate n ''obj'' \<and>
      export_formats
          (calls (snd (snd (usdzToObj0 L (without_logging self) m usdzFile objFile)))) =
        export_formats (calls m) @ replicate n ''obj'') \<and>
   (\<forall>scene pFormatId pPath.
      Call_Export scene pFormatId pPath \<in>
        set (calls (snd (snd (usdzToObj L self m usdzFile objFile)))) \<longrightarrow>
      Call_Export scene pFormatId pPath \<in> set (calls m) \<or>
      pFormatId = ''obj'' \<and> pPath = objFile)"
proof -
  have c: "calls (snd (snd (usdzToObj L self m usdzFile p))) =
      calls (snd (snd (usdzToObj0 L (without_logging self) m usdzFile p)))" for p
    using usdzToObj_sim [of L self m usdzFile p] by simp
  show ?thesis
    unfolding c
    by (cases "fst (ReadFile L (files m) (importer self) usdzFile (ppFlags L))")
      (auto simp add: usdzToObj0_calls intro: exI [of _ 0] exI [of _ 1])
qed

theorem usdzToObj_export_format_witness:
  "export_formats
     (calls (snd (snd (usdzToObj stub (stub_wrapper True) stub_machine ''model.usdz'' ''out.stl'')))) =
     [''obj'']"
proof -
  have "export_formats
     (calls (snd (snd (usdzToObj0 stub (without_logging (stub_wrapper True)) stub_machine
        ''model.usdz'' ''out.stl'')))) = [''obj'']"
    by (simp add: usdzToObj0_calls stub_ReadFile_values)
  then show ?thesis
    using usdzToObj_export_format [of stub "stub_wrapper True" stub_machine "''model.usdz''"
        "''out.stl''" "''out.stl''"]
    by auto
qed

subsection \<open>The library instance meets the specification's description\<close>

lemma stub_missing_file_reported: "missing_file_reported stub"
  by (simp add: missing_file_reported_def stub_ReadFile_def)

lemma stub_error_state_overwritten: "error_state_overwritten stub"
  by (auto simp add: error_state_overwritten_def stub_ReadFile_def stub_Export_def
      split: option.splits if_splits)

lemma stub_registry_named: "registry_named stub ex"
  by (simp add: registry_named_def stub_formats_def less_Suc_eq numeral_2_eq_2)

lemma stub_registry_stable: "registry_stable stub"
  by (simp add: registry_stable_def fun_eq_iff)

subsection \<open>Error strings after a conversion\<close>

lemma getLastError_usdzToObj:
  "getLastError L (fst (snd (usdzToObj L self m usdzFile objFile))) =
   getLastError L (fst (snd (usdzToObj0 L (without_logging self) m usdzFile objFile)))"
  using usdzToObj_sim [of L self m usdzFile objFile]
    queries_without_logging(2) [of L "fst (snd (usdzToObj L self m usdzFile objFile))"]
  by simp

text \<open>
  C6. When the input path names no file, \<open>usdzToObj\<close> returns false and \<open>getLastError\<close>
  called on the object right afterwards returns \<open>''Import: ''\<close> followed by a non-empty
  error string, in both variants. That the importer gives no scene and a non-empty
  error string for such a path is the library's part, \<open>missing_file_reported\<close>.
\<close>

theorem missing_input_reported:
  assumes "missing_file_reported L" and "files m usdzFile = None"
  shows "\<not> fst (usdzToObj L self m usdzFile objFile) \<and>
    (\<exists>err. err \<noteq> [] \<and>
       getLastError L (fst (snd (usdzToObj L self m usdzFile objFile))) = ''Import: '' @ err) \<and>
    \<not> fst (usdzToObj0 L (without_logging self) m usdzFile objFile) \<and>
    (\<exists>err. err \<noteq> [] \<and>
       getLastError L (fst (snd (usdzToObj0 L (without_logging self) m usdzFile objFile))) =
         ''Import: '' @ err)"
proof -
  obtain scene imp' where rf:
    "ReadFile L (files m) (importer (without_logging self)) usdzFile (ppFlags L) = (scene, imp')"
    by (cases "ReadFile L (files m) (importer (without_logging self)) usdzFile (ppFlags L)")
  from assms have "fst (ReadFile L (files m) (importer self) usdzFile (ppFlags L)) = None \<and>
      Importer_GetErrorString L
        (snd (ReadFile L (files m) (importer self) usdzFile (ppFlags L))) \<noteq> []"
    unfolding missing_file_reported_def by blast
  with rf have none: "scene = None" and err: "Importer_GetErrorString L imp' \<noteq> []"
    by simp_all
  have r: "usdzToObj0 L (without_logging self) m usdzFile objFile =
      (False, (without_logging self)\<lparr>importer := imp'\<rparr>,
       m\<lparr>calls := calls m @ [Call_ReadFile usdzFile (ppFlags L)]\<rparr>)"
    using usdzToObj0_cases [OF rf, of objFile] none by simp
  have "getLastError L (fst (snd (usdzToObj0 L (without_logging self) m usdzFile objFile))) =
      ''Import: '' @ Importer_GetErrorString L imp'"
    using err by (simp add: r getLastError_def)
  with err r show ?thesis
    using usdzToObj_sim [of L self m usdzFile objFile]
    by (simp add: getLastError_usdzToObj)
qed

theorem missing_input_reported_witness:
  "\<not> fst (usdzToObj stub (stub_wrapper True) stub_machine ''nowhere.usdz'' ''out.obj'') \<and>
   getLastError stub
     (fst (snd (usdzToObj stub (stub_wrapper True) stub_machine ''nowhere.usdz'' ''out.obj''))) =
     ''Import: Unable to open file''"
proof -
  have f: "files stub_machine ''nowhere.usdz'' = None"
    by (simp add: stub_files_def)
  have "getLastError stub
     (fst (snd (usdzToObj0 stub (without_logging (stub_wrapper True)) stub_machine
        ''nowhere.usdz'' ''out.obj''))) = ''Import: Unable to open file''"
    by code_simp
  then show ?thesis
    using missing_input_reported [OF stub_missing_file_reported f, of "stub_wrapper True"
        "''out.obj''"]
    by (simp add: getLastError_usdzToObj)
qed

text \<open>
  C7. \<open>getLastError\<close> returns the empty string on an object just constructed, and on the
  object as a call of \<open>usdzToObj\<close> that returned true leaves it, whatever the two error
  strings were before that call, in both variants. The class never clears an error
  string itself: the result rests on the library's part, \<open>error_state_overwritten\<close>,
  which asks for an empty string only after a complete, rooted import and after a
  successful export.
\<close>

theorem no_error_when_fresh_or_converted:
  assumes "error_state_overwritten L"
  shows "getLastError L (fst (AssimpExportWrapper_init L enableLogging m0)) = [] \<and>
    getLastError L (AssimpExportWrapper0_init L) = [] \<and>
    (fst (usdzToObj L self m usdzFile objFile) \<longrightarrow>
       getLastError L (fst (snd (usdzToObj L self m usdzFile objFile))) = []) \<and>
    (fst (usdzToObj0 L (without_logging self) m usdzFile objFile) \<longrightarrow>
       getLastError L (fst (snd (usdzToObj0 L (without_logging self) m usdzFile objFile))) = [])"
proof -
  from assms have new: "Importer_GetErrorString L (Importer_new L) = []"
      "Exporter_GetErrorString L (Exporter_new L) = []"
    and imp: "\<And>fs imp pFile pFlags scene imp'.
      ReadFile L fs imp pFile pFlags = (Some scene, imp') \<Longrightarrow>
      mFlags scene AND AI_SCENE_FLAGS_INCOMPLETE L = 0 \<Longrightarrow> mRootNode scene \<noteq> None \<Longrightarrow>
      Importer_GetErrorString L imp' = []"
    and exp: "\<And>fs ex scene pFormatId pPath ex' fs'.
      Export L fs ex scene pFormatId pPath = (AI_SUCCESS L, ex', fs') \<Longrightarrow>
      Exporter_GetErrorString L ex' = []"
    unfolding error_state_overwritten_def by blast+
  have fresh: "getLastError L (fst (AssimpExportWrapper_init L enableLogging m0)) = []"
    "getLastError L (AssimpExportWrapper0_init L) = []"
    using new
    by (simp_all add: getLastError_def AssimpExportWrapper_init_def
        AssimpExportWrapper0_init_def)
  have conv: "getLastError L
      (fst (snd (usdzToObj0 L (without_logging self) m usdzFile objFile))) = []"
    if ok: "fst (usdzToObj0 L (without_logging self) m usdzFile objFile)"
  proof -
    obtain scene imp' where rf:
      "ReadFile L (files m) (importer (without_logging self)) usdzFile (ppFlags L) =
         (scene, imp')"
      by (cases "ReadFile L (files m) (importer (without_logging self)) usdzFile (ppFlags L)")
    from ok obtain sc where sc: "scene = Some sc"
      and good: "\<not> (mFlags sc AND AI_SCENE_FLAGS_INCOMPLETE L \<noteq> 0 \<or> mRootNode sc = None)"
      and succ: "fst (Export L (files m) (exporter self) sc ''obj'' objFile) = AI_SUCCESS L"
      using rf by (auto simp add: usdzToObj0_result)
    obtain ex' fs' where ex:
      "Export L (files m) (exporter self) sc ''obj'' objFile = (AI_SUCCESS L, ex', fs')"
      using succ by (cases "Export L (files m) (exporter self) sc ''obj'' objFile") simp
    have "Importer_GetErrorString L imp' = []"
      using imp [of "files m" "importer (without_logging self)" usdzFile "ppFlags L" sc imp']
        rf sc good
      by simp
    moreover have "Exporter_GetErrorString L ex' = []"
      using exp ex by blast
    ultimately show ?thesis
      using usdzToObj0_cases [OF rf, of objFile] sc good ex
      by (auto simp add: getLastError_def)
  qed
  show ?thesis
    using fresh conv usdzToObj_sim [of L self m usdzFile objFile]
    by (simp add: getLastError_usdzToObj)
qed

theorem no_error_when_fresh_or_converted_witness:
  "getLastError stub (stub_wrapper True) = [] \<and>
   getLastError stub
     \<lparr>importer = ''Unable to open file'', exporter = ''Cannot write file'',
      enable_logging = True\<rparr> = ''Import: Unable to open file'' \<and>
   fst (usdzToObj stub
     \<lparr>importer = ''Unable to open file'', exporter = ''Cannot write file'',
      enable_logging = True\<rparr> stub_machine ''model.usdz'' ''out.obj'') \<and>
   getLastError stub
     (fst (snd (usdzToObj stub
        \<lparr>importer = ''Unable to open file'', exporter = ''Cannot write file'',
         enable_logging = True\<rparr> stub_machine ''model.usdz'' ''out.obj''))) = [] \<and>
   fst (snd (run stub
     [Usdz_to_obj ''model.usdz'' [], Usdz_to_obj ''nowhere.usdz'' ''out.obj'']
     (stub_wrapper True, stub_machine))) =
     \<lparr>importer = ''Unable to open file'', exporter = ''Cannot write file'',
      enable_logging = True\<rparr>"
proof -
  let ?self = "\<lparr>importer = ''Unable to open file'', exporter = ''Cannot write file'',
      enable_logging = True\<rparr> :: (string, string) AssimpExportWrapper"
  have before: "getLastError stub ?self = ''Import: Unable to open file''"
    by (simp add: getLastError_def)
  have reached: "fst (snd (run stub
     [Usdz_to_obj ''model.usdz'' [], Usdz_to_obj ''nowhere.usdz'' ''out.obj'']
     (stub_wrapper True, stub_machine))) = ?self"
    by code_simp
  have "fst (usdzToObj0 stub (without_logging ?self) stub_machine ''model.usdz'' ''out.obj'')"
    by code_simp
  then have ok: "fst (usdzToObj stub ?self stub_machine ''model.usdz'' ''out.obj'')"
    using usdzToObj_sim [of stub ?self stub_machine "''model.usdz''" "''out.obj''"]
    by simp
  from no_error_when_fresh_or_converted [OF stub_error_state_overwritten,
      of True stub_machine ?self stub_machine "''model.usdz''" "''out.obj''"] ok
  have "getLastError stub (fst (AssimpExportWrapper_init stub True stub_machine)) = []"
    and "getLastError stub
      (fst (snd (usdzToObj stub ?self stub_machine ''model.usdz'' ''out.obj''))) = []"
    by simp_all
  with before reached ok show ?thesis
    by (simp only: stub_wrapper_def simp_thms)
qed

subsection \<open>The format list over a sequence of requests\<close>

lemma getSupportedFormats_loop_cong:
  assumes "GetExportFormatCount L ex' = GetExportFormatCount L ex"
    and "GetExportFormatDescription L ex' = GetExportFormatDescription L ex"
  shows "getSupportedFormats_loop L ex' i formats = getSupportedFormats_loop L ex i formats"
  using assms
proof (induction L ex i formats rule: getSupportedFormats_loop.induct)
  case (1 L ex i formats)
  have l: "getSupportedFormats_loop L ex' i formats =
     (if i < GetExportFormatCount L ex then
        (case GetExportFormatDescription L ex i of
           None \<Rightarrow> Inl NullDereference
         | Some desc \<Rightarrow>
             getSupportedFormats_loop L ex' (i + 1)
               (formats @ [id_desc desc @ '' - '' @ description desc]))
      else Inr formats)"
    using getSupportedFormats_loop.simps [of L ex' i formats] "1.prems" by simp
  have r: "getSupportedFormats_loop L ex i formats =
     (if i < GetExportFormatCount L ex then
        (case GetExportFormatDescription L ex i of
           None \<Rightarrow> Inl NullDereference
         | Some desc \<Rightarrow>
             getSupportedFormats_loop L ex (i + 1)
               (formats @ [id_desc desc @ '' - '' @ description desc]))
      else Inr formats)"
    by (rule getSupportedFormats_loop.simps)
  show ?case
  proof (cases "i < GetExportFormatCount L ex")
    case True
    show ?thesis
    proof (cases "GetExportFormatDescription L ex i")
      case None
      with True show ?thesis unfolding l r by simp
    next
      case (Some desc)
      from "1.IH" [OF True Some "1.prems"] True Some show ?thesis
        unfolding l r by simp
    qed
  next
    case False
    then show ?thesis unfolding l r by simp
  qed
qed

lemma usdzToObj_registry:
  assumes "registry_stable L"
  shows "GetExportFormatCount L (exporter (fst (snd (usdzToObj L self m usdzFile objFile)))) =
      GetExportFormatCount L (exporter self) \<and>
    GetExportFormatDescription L (exporter (fst (snd (usdzToObj L self m usdzFile objFile)))) =
      GetExportFormatDescription L (exporter self)"
proof -
  obtain scene imp' where rf:
    "ReadFile L (files m) (importer (without_logging self)) usdzFile (ppFlags L) = (scene, imp')"
    by (cases "ReadFile L (files m) (importer (without_logging self)) usdzFile (ppFlags L)")
  have st: "GetExportFormatCount L (fst (snd (Export L fs ex sc f p))) =
        GetExportFormatCount L ex"
      "GetExportFormatDescription L (fst (snd (Export L fs ex sc f p))) =
        GetExportFormatDescription L ex" for fs ex sc f p
    using assms unfolding registry_stable_def by blast+
  have "exporter (fst (snd (usdzToObj L self m usdzFile objFile))) =
      exporter (fst (snd (usdzToObj0 L (without_logging self) m usdzFile objFile)))"
    using usdzToObj_sim [of L self m usdzFile objFile]
      without_logging_simps(2) [of "fst (snd (usdzToObj L self m usdzFile objFile))"]
    by simp
  then show ?thesis
    by (cases scene) (simp_all add: usdzToObj0_cases [OF rf] st)
qed

lemma serve_registry:
  assumes "registry_stable L"
  shows "GetExportFormatCount L (exporter (fst (snd (serve L q (self, m))))) =
      GetExportFormatCount L (exporter self) \<and>
    GetExportFormatDescription L (exporter (fst (snd (serve L q (self, m))))) =
      GetExportFormatDescription L (exporter self)"
proof (cases q)
  case (Usdz_to_obj usdzFile objFile)
  show ?thesis
    unfolding Usdz_to_obj serve_Usdz_to_obj
    using usdzToObj_registry [OF assms, of self m usdzFile objFile] by simp
qed simp_all

lemma serve_formats:
  "fst (serve L q (self, m)) = Formats x \<Longrightarrow> x = getSupportedFormats L self"
  by (cases q) (auto split: prod.splits)

lemma run_formats:
  assumes "registry_stable L"
  shows "(\<forall>x. Formats x \<in> set (fst (run L qs (self, m))) \<longrightarrow> x = getSupportedFormats L self) \<and>
    getSupportedFormats L (fst (snd (run L qs (self, m)))) = getSupportedFormats L self"
proof (induction qs arbitrary: self m)
  case Nil
  show ?case by simp
next
  case (Cons q qs)
  obtain r self' m' where s: "serve L q (self, m) = (r, self', m')"
    by (cases "serve L q (self, m)")
  have run: "fst (run L (q # qs) (self, m)) = r # fst (run L qs (self', m'))"
    "snd (run L (q # qs) (self, m)) = snd (run L qs (self', m'))"
    unfolding run_Cons s by simp_all
  from serve_registry [OF assms, of q self m] s
  have "GetExportFormatCount L (exporter self') = GetExportFormatCount L (exporter self)"
    "GetExportFormatDescription L (exporter self') =
     GetExportFormatDescription L (exporter self)"
    by simp_all
  then have same: "getSupportedFormats L self' = getSupportedFormats L self"
    unfolding getSupportedFormats_def by (rule getSupportedFormats_loop_cong)
  from serve_formats [of L q self m] s
  have hd: "r = Formats x \<Longrightarrow> x = getSupportedFormats L self" for x
    by simp
  from Cons.IH [of self' m'] same
  have tl: "\<And>x. Formats x \<in> set (fst (run L qs (self', m'))) \<Longrightarrow>
      x = getSupportedFormats L self"
    and fin: "getSupportedFormats L (fst (snd (run L qs (self', m')))) =
      getSupportedFormats L self"
    by simp_all
  show ?case
  proof (intro conjI allI impI)
    fix x
    assume "Formats x \<in> set (fst (run L (q # qs) (self, m)))"
    then have "r = Formats x \<or> Formats x \<in> set (fst (run L qs (self', m')))"
      unfolding run by auto
    then show "x = getSupportedFormats L self"
      using hd tl by blast
  next
    show "getSupportedFormats L (fst (snd (run L (q # qs) (self, m)))) =
        getSupportedFormats L self"
      unfolding run by (rule fin)
  qed
qed

lemma getSupportedFormats_named:
  assumes "registry_named L (exporter self)"
  shows "\<exists>fmts. getSupportedFormats L self = Inr fmts \<and>
    length fmts = GetExportFormatCount L (exporter self) \<and>
    (\<forall>f \<in> set fmts. \<exists>a b. a \<noteq> [] \<and> b \<noteq> [] \<and> f = a @ '' - '' @ b)"
proof -
  let ?n = "GetExportFormatCount L (exporter self)"
  let ?g = "\<lambda>j. id_desc (the (GetExportFormatDescription L (exporter self) j)) @ '' - '' @
        description (the (GetExportFormatDescription L (exporter self) j))"
  from assms have d: "\<forall>j. 0 \<le> j \<and> j < ?n \<longrightarrow>
      GetExportFormatDescription L (exporter self) j \<noteq> None"
    unfolding registry_named_def by auto
  have named: "\<exists>a b. a \<noteq> [] \<and> b \<noteq> [] \<and> ?g j = a @ '' - '' @ b" if "j < ?n" for j
  proof -
    from assms that obtain desc where desc:
      "GetExportFormatDescription L (exporter self) j = Some desc"
      "id_desc desc \<noteq> []" "description desc \<noteq> []"
      unfolding registry_named_def by blast
    show ?thesis
      by (intro exI [of _ "id_desc desc"] exI [of _ "description desc"]) (simp add: desc)
  qed
  have all: "\<forall>f \<in> set (map ?g [0 ..< ?n]). \<exists>a b. a \<noteq> [] \<and> b \<noteq> [] \<and> f = a @ '' - '' @ b"
  proof
    fix f
    assume "f \<in> set (map ?g [0 ..< ?n])"
    then obtain j where "j < ?n" "f = ?g j"
      by (auto simp only: set_map set_upt image_iff atLeastLessThan_iff)
    with named [of j] show "\<exists>a b. a \<noteq> [] \<and> b \<noteq> [] \<and> f = a @ '' - '' @ b"
      by simp
  qed
  have len: "length (map ?g [0 ..< ?n]) = ?n"
    by simp
  have val: "getSupportedFormats L self = Inr (map ?g [0 ..< ?n])"
    unfolding getSupportedFormats_def using getSupportedFormats_loop_closed [OF d, of "[]"]
    by simp
  show ?thesis
    by (intro exI [of _ "map ?g [0 ..< ?n]"] conjI val len all)
qed

text \<open>
  C8. Over any sequence of requests on one object, every list that
  \<open>get_supported_formats\<close> returns is the list the first call returns: its length never
  decreases from one call to a later one, and each entry is a non-empty identifier,
  \<open>'' - ''\<close> and a non-empty description. The class changes the exporter only through
  \<open>Export\<close>; that \<open>Export\<close> leaves the registry alone and that its descriptors carry
  non-empty strings is the library's part, \<open>registry_stable\<close> and \<open>registry_named\<close>.
\<close>

theorem formats_stable_and_named:
  assumes "registry_stable L" and "registry_named L (exporter self)"
  shows "\<exists>fmts. getSupportedFormats L self = Inr fmts \<and>
    (\<forall>x. Formats x \<in> set (fst (run L qs (self, m))) \<longrightarrow> x = Inr fmts) \<and>
    getSupportedFormats L (fst (snd (run L qs (self, m)))) = Inr fmts \<and>
    (\<forall>i j xs ys. i \<le> j \<and> j < length (fst (run L qs (self, m))) \<and>
       fst (run L qs (self, m)) ! i = Formats (Inr xs) \<and>
       fst (run L qs (self, m)) ! j = Formats (Inr ys) \<longrightarrow> length xs \<le> length ys) \<and>
    (\<forall>f \<in> set fmts. \<exists>a b. a \<noteq> [] \<and> b \<noteq> [] \<and> f = a @ '' - '' @ b)"
proof -
  from getSupportedFormats_named [OF assms(2)] obtain fmts where
    f: "getSupportedFormats L self = Inr fmts"
    and n: "\<forall>f \<in> set fmts. \<exists>a b. a \<noteq> [] \<and> b \<noteq> [] \<and> f = a @ '' - '' @ b"
    by blast
  from run_formats [OF assms(1), of qs self m] f
  have all: "\<forall>x. Formats x \<in> set (fst (run L qs (self, m))) \<longrightarrow> x = Inr fmts"
    and after: "getSupportedFormats L (fst (snd (run L qs (self, m)))) = Inr fmts"
    by simp_all
  have mono: "\<forall>i j xs ys. i \<le> j \<and> j < length (fst (run L qs (self, m))) \<and>
       fst (run L qs (self, m)) ! i = Formats (Inr xs) \<and>
       fst (run L qs (self, m)) ! j = Formats (Inr ys) \<longrightarrow> length xs \<le> length ys"
  proof (intro allI impI, elim conjE)
    fix i j xs ys
    assume ij: "i \<le> j" "j < length (fst (run L qs (self, m)))"
      and at: "fst (run L qs (self, m)) ! i = Formats (Inr xs)"
        "fst (run L qs (self, m)) ! j = Formats (Inr ys)"
    from ij have "i < length (fst (run L qs (self, m)))" by simp
    with ij at have "Formats (Inr xs) \<in> set (fst (run L qs (self, m)))"
      "Formats (Inr ys) \<in> set (fst (run L qs (self, m)))"
      using nth_mem [of i "fst (run L qs (self, m))"] nth_mem [of j "fst (run L qs (self, m))"]
      by simp_all
    with all have "xs = fmts" "ys = fmts" by blast+
    then show "length xs \<le> length ys" by simp
  qed
  show ?thesis
  proof (intro exI [of _ fmts] conjI)
    show "getSupportedFormats L self = Inr fmts" by (rule f)
    show "\<forall>x. Formats x \<in> set (fst (run L qs (self, m))) \<longrightarrow> x = Inr fmts" by (rule all)
    show "getSupportedFormats L (fst (snd (run L qs (self, m)))) = Inr fmts" by (rule after)
    show "\<forall>i j xs ys. i \<le> j \<and> j < length (fst (run L qs (self, m))) \<and>
       fst (run L qs (self, m)) ! i = Formats (Inr xs) \<and>
       fst (run L qs (self, m)) ! j = Formats (Inr ys) \<longrightarrow> length xs \<le> length ys"
      by (rule mono)
    show "\<forall>f \<in> set fmts. \<exists>a b. a \<noteq> [] \<and> b \<noteq> [] \<and> f = a @ '' - '' @ b" by (rule n)
  qed
qed

theorem formats_stable_and_named_witness:
  "\<exists>fmts. getSupportedFormats stub (stub_wrapper True) = Inr fmts \<and>
     fst (run stub
       [Get_supported_formats, Usdz_to_obj ''model.usdz'' ''out.obj'', Get_supported_formats]
       (stub_wrapper True, stub_machine)) = [Formats (Inr fmts), Converted True, Formats (Inr fmts)] \<and>
     fmts = [''obj - Wavefront OBJ format'', ''stl - Stereolithography'']"
proof -
  have r: "fst (run0 stub
       [Get_supported_formats, Usdz_to_obj ''model.usdz'' ''out.obj'', Get_supported_formats]
       (without_logging (stub_wrapper True), stub_machine)) =
     [Formats (Inr [''obj - Wavefront OBJ format'', ''stl - Stereolithography'']),
      Converted True,
      Formats (Inr [''obj - Wavefront OBJ format'', ''stl - Stereolithography''])]"
    by code_simp
  have e: "files stub_machine = files stub_machine" "calls stub_machine = calls stub_machine"
    by simp_all
  have r': "fst (run stub
       [Get_supported_formats, Usdz_to_obj ''model.usdz'' ''out.obj'', Get_supported_formats]
       (stub_wrapper True, stub_machine)) =
     [Formats (Inr [''obj - Wavefront OBJ format'', ''stl - Stereolithography'']),
      Converted True,
      Formats (Inr [''obj - Wavefront OBJ format'', ''stl - Stereolithography''])]"
  proof -
    have "fst (run stub
       [Get_supported_formats, Usdz_to_obj ''model.usdz'' ''out.obj'', Get_supported_formats]
       (stub_wrapper True, stub_machine)) =
      fst (run0 stub
       [Get_supported_formats, Usdz_to_obj ''model.usdz'' ''out.obj'', Get_supported_formats]
       (without_logging (stub_wrapper True), stub_machine))"
      using run_sim [OF e, of stub
          "[Get_supported_formats, Usdz_to_obj ''model.usdz'' ''out.obj'', Get_supported_formats]"
          "stub_wrapper True"]
      by (elim conjE)
    then show ?thesis by (simp only: r)
  qed
  from formats_stable_and_named [OF stub_registry_stable stub_registry_named,
      of "stub_wrapper True"
      "[Get_supported_formats, Usdz_to_obj ''model.usdz'' ''out.obj'', Get_supported_formats]"
      stub_machine]
  obtain fmts where "getSupportedFormats stub (stub_wrapper True) = Inr fmts"
    "\<forall>x. Formats x \<in> set (fst (run stub
       [Get_supported_formats, Usdz_to_obj ''model.usdz'' ''out.obj'', Get_supported_formats]
       (stub_wrapper True, stub_machine))) \<longrightarrow> x = Inr fmts"
    by blast
  then show ?thesis
    unfolding r' by simp
qed

end
